theory Spec2Isabelle
  imports Main "HOL-Library.AList"
begin

section \<open>The RuWordNet wrapper: data model\<close>

text \<open>
  The class \<open>RuWordNetInfo\<close> of \<open>ruwordnet.py\<close> loads nine XML files, builds
  dictionaries from them in its constructor and answers queries on these dictionaries.

  A Python \<open>str\<close> is modelled as a \<open>string\<close>, read as the UTF-8 encoding of the text: the
  code compares strings for equality, looks them up as keys and lower-cases them, and
  never inspects their length or their characters. Equality of texts is equality of their
  encodings. \<open>str.lower\<close> is a built-in of the language with its own Unicode tables; every
  function that calls it takes it as the parameter \<open>lower\<close>, so that what is proved holds
  for any lower-casing function, and the closed instances below use \<open>str_lower\<close>.

  A Python \<open>dict\<close> whose keys are only ever looked up is a map \<open>string \<rightharpoonup> 'v\<close>; a
  \<open>dict\<close> that the code iterates over (the relations of one synset, and every \<open>dict\<close>
  that a query returns) is an association list in insertion order, read with \<open>map_of\<close>
  and written with \<open>AList.update\<close>, which replaces the value of a key where it stands and
  puts a new key last, as an assignment to a Python \<open>dict\<close> does.
\<close>

text \<open>The children of the parsed XML roots, with the attributes the code reads.\<close>

record sense =
  sense_name :: string
  sense_synset_id :: string
  sense_meaning :: string
  sense_lemma :: string

record synset =
  syn_id :: string
  syn_ruthes_name :: string
  syn_definition :: string

record relation =
  parent_id :: string
  rel_name :: string
  child_id :: string

text \<open>What \<open>load_xml\<close> returns for each of the file names of the constructor.\<close>

record data_files =
  senses_file_n :: "sense list"
  senses_file_v :: "sense list"
  senses_file_a :: "sense list"
  synsets_n :: "synset list"
  synsets_v :: "synset list"
  synsets_a :: "synset list"
  synset_relations_N :: "relation list"
  synset_relations_A :: "relation list"
  synset_relations_V :: "relation list"

type_synonym defdict = "(string \<times> string) list"
type_synonym reldict = "(string \<times> string list) list"

datatype error = KeyError string

text \<open>The attributes of a \<open>RuWordNetInfo\<close> object.\<close>

record ruwordnet =
  senses_N :: "sense list"
  senses_V :: "sense list"
  senses_A :: "sense list"
  synsets_N :: "synset list"
  synsets_V :: "synset list"
  synsets_A :: "synset list"
  word_synset_N :: "string \<rightharpoonup> string list"
  word_synset_V :: "string \<rightharpoonup> string list"
  word_synset_A :: "string \<rightharpoonup> string list"
  synset_word_N :: "string \<rightharpoonup> string list"
  synset_word_V :: "string \<rightharpoonup> string list"
  synset_word_A :: "string \<rightharpoonup> string list"
  defin_N :: "string \<rightharpoonup> defdict"
  defin_V :: "string \<rightharpoonup> defdict"
  defin_A :: "string \<rightharpoonup> defdict"
  basic_relations :: "string \<rightharpoonup> reldict"

definition has_key :: "('k \<rightharpoonup> 'v) \<Rightarrow> 'k \<Rightarrow> bool" where
  "has_key m k = (m k \<noteq> None)"

text \<open>
  ASCII lower-casing of a byte string. It agrees with \<open>str.lower\<close> on the encoding of
  every text whose cased letters outside ASCII are lower-case already.
\<close>

definition lower_char :: "char \<Rightarrow> char" where
  "lower_char c =
     (case map_of (zip ''ABCDEFGHIJKLMNOPQRSTUVWXYZ'' ''abcdefghijklmnopqrstuvwxyz'') c of
        Some d \<Rightarrow> d
      | None \<Rightarrow> c)"

definition str_lower :: "string \<Rightarrow> string" where
  "str_lower s = map lower_char s"

section \<open>The constructor\<close>

text \<open>
  \<open>create_word_synset_map\<close>: one pass over the senses, appending to the list of the
  lower-cased name in \<open>synset_dict\<close> and to the list of the synset in \<open>synonyms\<close>.
\<close>

definition append_at :: "('k \<rightharpoonup> 'v list) \<Rightarrow> 'k \<Rightarrow> 'v \<Rightarrow> ('k \<rightharpoonup> 'v list)" where
  "append_at d k v =
     (let d1 = (if \<not> has_key d k then d(k \<mapsto> []) else d)
      in d1(k \<mapsto> the (d1 k) @ [v]))"

fun word_synset_loop ::
  "(string \<Rightarrow> string) \<Rightarrow> sense list \<Rightarrow> (string \<rightharpoonup> string list) \<times> (string \<rightharpoonup> string list) \<Rightarrow>
   (string \<rightharpoonup> string list) \<times> (string \<rightharpoonup> string list)" where
  "word_synset_loop lower [] (synset_dict, synonyms) = (synset_dict, synonyms)"
| "word_synset_loop lower (child # rest) (synset_dict, synonyms) =
     (let name = lower (sense_name child) in
      word_synset_loop lower rest
        (append_at synset_dict name (sense_synset_id child),
         append_at synonyms (sense_synset_id child) name))"

definition create_word_synset_map ::
  "(string \<Rightarrow> string) \<Rightarrow> sense list \<Rightarrow> (string \<rightharpoonup> string list) \<times> (string \<rightharpoonup> string list)" where
  "create_word_synset_map lower senses = word_synset_loop lower senses (Map.empty, Map.empty)"

text \<open>\<open>extract_synset_definitions\<close>: the last synset with an id gives its entry.\<close>

fun definitions_loop :: "synset list \<Rightarrow> (string \<rightharpoonup> defdict) \<Rightarrow> (string \<rightharpoonup> defdict)" where
  "definitions_loop [] definitions = definitions"
| "definitions_loop (child # rest) definitions =
     definitions_loop rest
       (definitions(syn_id child \<mapsto>
          [(''ruthes_name'', syn_ruthes_name child), (''definition'', syn_definition child)]))"

definition extract_synset_definitions :: "synset list \<Rightarrow> (string \<rightharpoonup> defdict)" where
  "extract_synset_definitions synsets = definitions_loop synsets Map.empty"

text \<open>
  \<open>get_basic_relations\<close>: the inner loop runs over the children of one file and carries
  \<open>par_id_prev\<close>, which starts as the empty string in every file; the dictionary is
  shared by all files. A child whose parent equals \<open>par_id_prev\<close> is added to the
  dictionary of that parent (a \<open>KeyError\<close> when the parent has none, which is the case
  of a first child with the empty parent id), any other child replaces the dictionary of
  its parent by a new one.
\<close>

fun relations_loop ::
  "relation list \<Rightarrow> string \<Rightarrow> (string \<rightharpoonup> reldict) \<Rightarrow> error + (string \<rightharpoonup> reldict)" where
  "relations_loop [] par_id_prev d = Inr d"
| "relations_loop (child # rest) par_id_prev d =
     (if par_id_prev = parent_id child then
        (case d (parent_id child) of
           None \<Rightarrow> Inl (KeyError (parent_id child))
         | Some inner \<Rightarrow>
             (case map_of inner (rel_name child) of
                Some children \<Rightarrow>
                  relations_loop rest par_id_prev
                    (d(parent_id child \<mapsto>
                       AList.update (rel_name child) (children @ [child_id child]) inner))
              | None \<Rightarrow>
                  relations_loop rest (parent_id child)
                    (d(parent_id child \<mapsto>
                       AList.update (rel_name child) [child_id child] inner))))
      else
        relations_loop rest (parent_id child)
          (d(parent_id child \<mapsto> AList.update (rel_name child) [child_id child] [])))"

fun relations_files_loop ::
  "relation list list \<Rightarrow> (string \<rightharpoonup> reldict) \<Rightarrow> error + (string \<rightharpoonup> reldict)" where
  "relations_files_loop [] d = Inr d"
| "relations_files_loop (root # files) d =
     (case relations_loop root [] d of
        Inl e \<Rightarrow> Inl e
      | Inr d' \<Rightarrow> relations_files_loop files d')"

definition get_basic_relations :: "relation list list \<Rightarrow> error + (string \<rightharpoonup> reldict)" where
  "get_basic_relations relations_files = relations_files_loop relations_files Map.empty"

text \<open>
  \<open>__init__\<close>: the relation files are read in the order of \<open>relations_file_names\<close>,
  nouns, adjectives, verbs.
\<close>

definition init :: "(string \<Rightarrow> string) \<Rightarrow> data_files \<Rightarrow> error + ruwordnet" where
  "init lower files =
     (let (wsN, swN) = create_word_synset_map lower (senses_file_n files);
          (wsV, swV) = create_word_synset_map lower (senses_file_v files);
          (wsA, swA) = create_word_synset_map lower (senses_file_a files)
      in case get_basic_relations
                [synset_relations_N files, synset_relations_A files, synset_relations_V files] of
           Inl e \<Rightarrow> Inl e
         | Inr rels \<Rightarrow>
             Inr \<lparr> senses_N = senses_file_n files,
                   senses_V = senses_file_v files,
                   senses_A = senses_file_a files,
                   synsets_N = synsets_n files,
                   synsets_V = synsets_v files,
                   synsets_A = synsets_a files,
                   word_synset_N = wsN, word_synset_V = wsV, word_synset_A = wsA,
                   synset_word_N = swN, synset_word_V = swV, synset_word_A = swA,
                   defin_N = extract_synset_definitions (synsets_n files),
                   defin_V = extract_synset_definitions (synsets_v files),
                   defin_A = extract_synset_definitions (synsets_a files),
                   basic_relations = rels \<rparr>)"

section \<open>The queries\<close>

text \<open>
  \<open>extract_word_synset_number\<close> returns a list of synset ids or, with \<open>full_info\<close>, a
  list of pairs of a synset id and its definition. The word is looked up as it is given.
\<close>

datatype synsets_result = Synsets "string list" | Info "(string \<times> defdict) list"

text \<open>
  \<open>show_synset_definitions\<close>: the three tests of the source all read \<open>defin_N\<close>.
\<close>

definition show_synset_definitions :: "ruwordnet \<Rightarrow> string \<Rightarrow> defdict" where
  "show_synset_definitions self synset_number =
     (if has_key (defin_N self) synset_number then the (defin_N self synset_number)
      else if has_key (defin_N self) synset_number then the (defin_N self synset_number)
      else if has_key (defin_N self) synset_number then the (defin_N self synset_number)
      else [])"

text \<open>
  The chain of tests that opens \<open>extract_word_synset_number\<close> and \<open>show_synonyms\<close>:
  the list of the first of the three dictionaries that has the word, \<open>None\<close> where the
  source takes its last branch.
\<close>

definition word_synsets :: "ruwordnet \<Rightarrow> string \<Rightarrow> string list option" where
  "word_synsets self word =
     (if has_key (word_synset_N self) word then Some (the (word_synset_N self word))
      else if has_key (word_synset_V self) word then Some (the (word_synset_V self word))
      else if has_key (word_synset_A self) word then Some (the (word_synset_A self word))
      else None)"

definition extract_word_synset_number :: "ruwordnet \<Rightarrow> string \<Rightarrow> bool \<Rightarrow> synsets_result" where
  "extract_word_synset_number self word full_info =
     (case word_synsets self word of
        None \<Rightarrow> Synsets [''No such word in RuWordNet'']
      | Some synsets \<Rightarrow>
          if full_info
          then Info (map (\<lambda>syn. (syn, show_synset_definitions self syn)) synsets)
          else Synsets synsets)"

text \<open>
  The lists of the three \<open>synset_word\<close> dictionaries are objects that a query can hand
  out and change in place, so a list value is either the list stored in one of the
  dictionaries under a key, or a list made by the query itself. \<open>contents\<close> reads a list
  value in a state of the object.
\<close>

datatype pos = PosN | PosV | PosA

datatype listobj = Stored pos string | Fresh "string list"

fun synset_word :: "ruwordnet \<Rightarrow> pos \<Rightarrow> (string \<rightharpoonup> string list)" where
  "synset_word self PosN = synset_word_N self"
| "synset_word self PosV = synset_word_V self"
| "synset_word self PosA = synset_word_A self"

fun synset_word_update :: "pos \<Rightarrow> (string \<rightharpoonup> string list) \<Rightarrow> ruwordnet \<Rightarrow> ruwordnet" where
  "synset_word_update PosN m self = self\<lparr>synset_word_N := m\<rparr>"
| "synset_word_update PosV m self = self\<lparr>synset_word_V := m\<rparr>"
| "synset_word_update PosA m self = self\<lparr>synset_word_A := m\<rparr>"

fun contents :: "ruwordnet \<Rightarrow> listobj \<Rightarrow> string list" where
  "contents self (Stored p k) = (case synset_word self p k of Some ws \<Rightarrow> ws | None \<Rightarrow> [])"
| "contents self (Fresh ws) = ws"

text \<open>
  \<open>show_synset_words\<close> returns the stored list itself, or a new one-element list.
  \<open>show_synset_words\<close> below is the list value, \<open>show_synset_words_list\<close> what it holds.
\<close>

definition show_synset_words :: "ruwordnet \<Rightarrow> string \<Rightarrow> listobj" where
  "show_synset_words self synset_number =
     (if has_key (synset_word_N self) synset_number then Stored PosN synset_number
      else if has_key (synset_word_V self) synset_number then Stored PosV synset_number
      else if has_key (synset_word_A self) synset_number then Stored PosA synset_number
      else Fresh [''No such synset in the thesaurus''])"

definition show_synset_words_list :: "ruwordnet \<Rightarrow> string \<Rightarrow> string list" where
  "show_synset_words_list self synset_number =
     contents self (show_synset_words self synset_number)"

text \<open>\<open>list.remove\<close> on a list value: the first occurrence goes, in place.\<close>

fun list_remove :: "ruwordnet \<Rightarrow> listobj \<Rightarrow> string \<Rightarrow> listobj \<times> ruwordnet" where
  "list_remove self (Stored p k) word =
     (Stored p k,
      synset_word_update p ((synset_word self p)(k \<mapsto> remove1 word (contents self (Stored p k)))) self)"
| "list_remove self (Fresh ws) word = (Fresh (remove1 word ws), self)"

text \<open>
  \<open>show_synonyms\<close> returns the string \<open>'No such word in RuWordNet'\<close> or a list of
  dictionaries with the keys \<open>synset_id\<close>, \<open>synonyms\<close> and \<open>ruthes_name\<close>. The value
  under \<open>synonyms\<close> is the list value that \<open>show_synset_words\<close> returned, after the
  removal. The function returns its result, or the error it raised, together with the
  state it leaves the object in.
\<close>

record synonyms_entry =
  synset_id :: string
  synonyms :: listobj
  ruthes_name :: string

datatype synonyms_result = Message string | Entries "synonyms_entry list"

fun synonyms_loop ::
  "string \<Rightarrow> string list \<Rightarrow> synonyms_entry list \<Rightarrow> ruwordnet \<Rightarrow>
   (error + synonyms_entry list) \<times> ruwordnet" where
  "synonyms_loop word [] output_info self = (Inr output_info, self)"
| "synonyms_loop word (syn # rest) output_info self =
     (let synonyms0 = show_synset_words self syn;
          (synonyms1, self1) =
             (if word \<in> set (contents self synonyms0) then list_remove self synonyms0 word
              else (synonyms0, self))
      in case map_of (show_synset_definitions self1 syn) ''ruthes_name'' of
           None \<Rightarrow> (Inl (KeyError ''ruthes_name''), self1)
         | Some defin \<Rightarrow>
             synonyms_loop word rest
               (output_info @ [\<lparr>synset_id = syn, synonyms = synonyms1, ruthes_name = defin\<rparr>])
               self1)"

definition show_synonyms :: "ruwordnet \<Rightarrow> string \<Rightarrow> (error + synonyms_result) \<times> ruwordnet" where
  "show_synonyms self word =
     (case word_synsets self word of
        None \<Rightarrow> (Inr (Message ''No such word in RuWordNet''), self)
      | Some synsets \<Rightarrow>
          (case synonyms_loop word synsets [] self of
             (Inl e, self') \<Rightarrow> (Inl e, self')
           | (Inr output_info, self') \<Rightarrow> (Inr (Entries output_info), self')))"

text \<open>What a caller reads in a returned entry, in the state the call left.\<close>

definition entry_view :: "ruwordnet \<Rightarrow> synonyms_entry \<Rightarrow> string \<times> string list \<times> string" where
  "entry_view self e = (synset_id e, contents self (synonyms e), ruthes_name e)"

definition show_basic_synset_relations :: "ruwordnet \<Rightarrow> string \<Rightarrow> reldict" where
  "show_basic_synset_relations self synset_number =
     (if has_key (basic_relations self) synset_number
      then the (basic_relations self synset_number)
      else [])"

text \<open>
  \<open>show_synset_relations_with_words\<close>: the value of a relation in the result is a list
  of words, or with \<open>print_synsets\<close> a dictionary from synsets to lists of words. The flag
  is the same in every step of one call, so a value of the other shape is never met in
  \<open>relatives_dict_words\<close>; the model reads it as empty there. \<open>relations\<close> is \<open>'all'\<close>
  or a list of relation names.
\<close>

datatype relvalue = Words "string list" | BySynset "(string \<times> string list) list"

datatype relselect = All | Only "string list"

definition words_of :: "relvalue option \<Rightarrow> string list" where
  "words_of v = (case v of Some (Words ws) \<Rightarrow> ws | _ \<Rightarrow> [])"

definition by_synset_of :: "relvalue option \<Rightarrow> (string \<times> string list) list" where
  "by_synset_of v = (case v of Some (BySynset m) \<Rightarrow> m | _ \<Rightarrow> [])"

definition relation_step ::
  "ruwordnet \<Rightarrow> bool \<Rightarrow> string \<Rightarrow> string \<Rightarrow> (string \<times> relvalue) list \<Rightarrow> (string \<times> relvalue) list" where
  "relation_step self print_synsets relation syn relatives_dict_words =
     (if print_synsets then
        (let d1 = (if map_of relatives_dict_words relation = None
                   then AList.update relation (BySynset []) relatives_dict_words
                   else relatives_dict_words);
             inner = by_synset_of (map_of d1 relation);
             inner1 = (if map_of inner syn = None then AList.update syn [] inner else inner);
             inner2 = AList.update syn
                        (the (map_of inner1 syn) @ show_synset_words_list self syn) inner1
         in AList.update relation (BySynset inner2) d1)
      else
        (let d1 = (if map_of relatives_dict_words relation = None
                   then AList.update relation (Words []) relatives_dict_words
                   else relatives_dict_words)
         in AList.update relation
              (Words (words_of (map_of d1 relation) @ show_synset_words_list self syn)) d1))"

fun synsets_loop ::
  "ruwordnet \<Rightarrow> bool \<Rightarrow> string \<Rightarrow> string list \<Rightarrow> (string \<times> relvalue) list \<Rightarrow>
   (string \<times> relvalue) list" where
  "synsets_loop self print_synsets relation [] d = d"
| "synsets_loop self print_synsets relation (syn # synsets) d =
     synsets_loop self print_synsets relation synsets
       (relation_step self print_synsets relation syn d)"

fun items_loop ::
  "ruwordnet \<Rightarrow> bool \<Rightarrow> reldict \<Rightarrow> (string \<times> relvalue) list \<Rightarrow> (string \<times> relvalue) list" where
  "items_loop self print_synsets [] d = d"
| "items_loop self print_synsets ((relation, synsets) # items) d =
     items_loop self print_synsets items (synsets_loop self print_synsets relation synsets d)"

fun final_dict_loop ::
  "string list \<Rightarrow> (string \<times> relvalue) list \<Rightarrow> (string \<times> relvalue) list \<Rightarrow>
   (string \<times> relvalue) list" where
  "final_dict_loop [] relatives_dict_words final_dict = final_dict"
| "final_dict_loop (relation # relations) relatives_dict_words final_dict =
     final_dict_loop relations relatives_dict_words
       (case map_of relatives_dict_words relation of
          Some v \<Rightarrow> AList.update relation v final_dict
        | None \<Rightarrow> final_dict)"

definition show_synset_relations_with_words ::
  "ruwordnet \<Rightarrow> string \<Rightarrow> bool \<Rightarrow> relselect \<Rightarrow> (string \<times> relvalue) list" where
  "show_synset_relations_with_words self synset_number print_synsets relations =
     (let relatives_dict = show_basic_synset_relations self synset_number
      in if relatives_dict \<noteq> [] then
           (let relatives_dict_words = items_loop self print_synsets relatives_dict []
            in case relations of
                 All \<Rightarrow> relatives_dict_words
               | Only rs \<Rightarrow> final_dict_loop rs relatives_dict_words [])
         else [])"

text \<open>
  \<open>extract_polysesmous_words\<close> and \<open>extract_monosesmous_words\<close>: a scan of the senses
  of one part of speech. The first component of the result is what the call prints. The
  progress bar \<open>tqdm_notebook\<close> yields the senses as they are.
\<close>

fun poly_loop :: "(string \<Rightarrow> string) \<Rightarrow> string \<Rightarrow> sense list \<Rightarrow> string list \<Rightarrow> string list" where
  "poly_loop lower output [] poly_words = poly_words"
| "poly_loop lower output (child # rest) poly_words =
     (let mean = sense_meaning child;
          name = (if output = ''lemmas'' then lower (sense_lemma child)
                  else lower (sense_name child))
      in poly_loop lower output rest
           (if name \<notin> set poly_words \<and> mean \<noteq> ''1'' then poly_words @ [name] else poly_words))"

definition extract_polysesmous_words ::
  "(string \<Rightarrow> string) \<Rightarrow> ruwordnet \<Rightarrow> string \<Rightarrow> string \<Rightarrow> string list \<times> string list" where
  "extract_polysesmous_words lower self pos output =
     (if pos = ''Noun'' then ([], poly_loop lower output (senses_N self) [])
      else if pos = ''Verb'' then ([], poly_loop lower output (senses_V self) [])
      else if pos = ''Adj'' then ([], poly_loop lower output (senses_A self) [])
      else ([''Invalid POS-tag''], []))"

fun mono_loop :: "(string \<Rightarrow> string) \<Rightarrow> string \<Rightarrow> sense list \<Rightarrow> string list \<Rightarrow> string list" where
  "mono_loop lower output [] mono_words = mono_words"
| "mono_loop lower output (child # rest) mono_words =
     (let mean = sense_meaning child;
          name = (if output = ''lemmas'' then lower (sense_lemma child)
                  else lower (sense_name child))
      in mono_loop lower output rest
           (if name \<notin> set mono_words \<and> mean = ''1'' then mono_words @ [name] else mono_words))"

definition extract_monosesmous_words ::
  "(string \<Rightarrow> string) \<Rightarrow> ruwordnet \<Rightarrow> string \<Rightarrow> string \<Rightarrow> string list \<times> string list" where
  "extract_monosesmous_words lower self pos output =
     (if pos = ''Noun'' then ([], mono_loop lower output (senses_N self) [])
      else if pos = ''Verb'' then ([], mono_loop lower output (senses_V self) [])
      else if pos = ''Adj'' then ([], mono_loop lower output (senses_A self) [])
      else ([''Invalid POS-tag''], []))"

section \<open>Reading the object by part of speech\<close>

text \<open>
  The three parts of speech in the order in which every query tries them, and the
  dictionaries and sense files of each.
\<close>

fun word_synset :: "ruwordnet \<Rightarrow> pos \<Rightarrow> (string \<rightharpoonup> string list)" where
  "word_synset self PosN = word_synset_N self"
| "word_synset self PosV = word_synset_V self"
| "word_synset self PosA = word_synset_A self"

fun senses_file :: "data_files \<Rightarrow> pos \<Rightarrow> sense list" where
  "senses_file files PosN = senses_file_n files"
| "senses_file files PosV = senses_file_v files"
| "senses_file files PosA = senses_file_a files"

fun earlier :: "pos \<Rightarrow> pos list" where
  "earlier PosN = []"
| "earlier PosV = [PosN]"
| "earlier PosA = [PosN, PosV]"

text \<open>The list under a key, empty where the key is absent.\<close>

definition entries :: "('k \<rightharpoonup> 'v list) \<Rightarrow> 'k \<Rightarrow> 'v list" where
  "entries d k = (case d k of Some xs \<Rightarrow> xs | None \<Rightarrow> [])"

text \<open>
  A word stands in the list of a relation of a result (without \<open>print_synsets\<close>), or in
  the list of a synset under a relation (with it).
\<close>

definition has_word :: "(string \<times> relvalue) list \<Rightarrow> string \<Rightarrow> string \<Rightarrow> bool" where
  "has_word d relation x = (\<exists>ws. map_of d relation = Some (Words ws) \<and> x \<in> set ws)"

definition has_word_under ::
  "(string \<times> relvalue) list \<Rightarrow> string \<Rightarrow> string \<Rightarrow> string \<Rightarrow> bool" where
  "has_word_under d relation syn x =
     (\<exists>m ws. map_of d relation = Some (BySynset m) \<and> map_of m syn = Some ws \<and> x \<in> set ws)"

section \<open>Example data\<close>

text \<open>
  The Russian words of the examples, in UTF-8: \<open>luk\<close> (onion, bow), \<open>oruzhie\<close>
  (weapon), \<open>dom\<close> (house) and \<open>idti\<close> (to go), all in lower case.
\<close>

definition luk :: string where
  "luk = [CHR 0xD0, CHR 0xBB, CHR 0xD1, CHR 0x83, CHR 0xD0, CHR 0xBA]"

definition oruzhie :: string where
  "oruzhie = [CHR 0xD0, CHR 0xBE, CHR 0xD1, CHR 0x80, CHR 0xD1, CHR 0x83,
              CHR 0xD0, CHR 0xB6, CHR 0xD0, CHR 0xB8, CHR 0xD0, CHR 0xB5]"

definition dom :: string where
  "dom = [CHR 0xD0, CHR 0xB4, CHR 0xD0, CHR 0xBE, CHR 0xD0, CHR 0xBC]"

definition idti :: string where
  "idti = [CHR 0xD0, CHR 0xB8, CHR 0xD0, CHR 0xB4, CHR 0xD1, CHR 0x82, CHR 0xD0, CHR 0xB8]"

definition no_files :: data_files where
  "no_files = \<lparr> senses_file_n = [], senses_file_v = [], senses_file_a = [],
                 synsets_n = [], synsets_v = [], synsets_a = [],
                 synset_relations_N = [], synset_relations_A = [], synset_relations_V = [] \<rparr>"

text \<open>Relations of one parent that another parent interrupts.\<close>

definition interrupted_files :: data_files where
  "interrupted_files = no_files \<lparr> synset_relations_N :=
     [\<lparr>parent_id = ''P1'', rel_name = ''hyp'', child_id = ''A''\<rparr>,
      \<lparr>parent_id = ''P2'', rel_name = ''hol'', child_id = ''B''\<rparr>,
      \<lparr>parent_id = ''P1'', rel_name = ''hyp'', child_id = ''C''\<rparr>] \<rparr>"

definition interrupted_index :: ruwordnet where
  "interrupted_index = projr (init str_lower interrupted_files)"

text \<open>One verb with its synset.\<close>

definition verb_files :: data_files where
  "verb_files = no_files \<lparr>
     senses_file_v :=
       [\<lparr>sense_name = idti, sense_synset_id = ''V1'', sense_meaning = ''1'', sense_lemma = idti\<rparr>],
     synsets_v :=
       [\<lparr>syn_id = ''V1'', syn_ruthes_name = ''IDTI'', syn_definition = []\<rparr>] \<rparr>"

definition verb_index :: ruwordnet where
  "verb_index = projr (init str_lower verb_files)"

text \<open>One noun whose synset has no synset record.\<close>

definition undefined_files :: data_files where
  "undefined_files = no_files \<lparr>
     senses_file_n :=
       [\<lparr>sense_name = dom, sense_synset_id = ''N1'', sense_meaning = ''1'', sense_lemma = dom\<rparr>] \<rparr>"

definition undefined_index :: ruwordnet where
  "undefined_index = projr (init str_lower undefined_files)"

text \<open>A noun synset of two words.\<close>

definition weapon_files :: data_files where
  "weapon_files = no_files \<lparr>
     senses_file_n :=
       [\<lparr>sense_name = luk, sense_synset_id = ''N1'', sense_meaning = ''1'', sense_lemma = luk\<rparr>,
        \<lparr>sense_name = oruzhie, sense_synset_id = ''N1'', sense_meaning = ''1'',
          sense_lemma = oruzhie\<rparr>],
     synsets_n :=
       [\<lparr>syn_id = ''N1'', syn_ruthes_name = ''LUK'', syn_definition = []\<rparr>] \<rparr>"

definition weapon_index :: ruwordnet where
  "weapon_index = projr (init str_lower weapon_files)"

text \<open>The same synset with the sense of the first word recorded twice.\<close>

definition repeated_files :: data_files where
  "repeated_files = no_files \<lparr>
     senses_file_n :=
       [\<lparr>sense_name = luk, sense_synset_id = ''N1'', sense_meaning = ''1'', sense_lemma = luk\<rparr>,
        \<lparr>sense_name = luk, sense_synset_id = ''N1'', sense_meaning = ''1'', sense_lemma = luk\<rparr>,
        \<lparr>sense_name = oruzhie, sense_synset_id = ''N1'', sense_meaning = ''1'',
          sense_lemma = oruzhie\<rparr>],
     synsets_n :=
       [\<lparr>syn_id = ''N1'', syn_ruthes_name = ''LUK'', syn_definition = []\<rparr>] \<rparr>"

definition repeated_index :: ruwordnet where
  "repeated_index = projr (init str_lower repeated_files)"

text \<open>A noun with two senses.\<close>

definition two_senses_files :: data_files where
  "two_senses_files = no_files \<lparr>
     senses_file_n :=
       [\<lparr>sense_name = dom, sense_synset_id = ''N1'', sense_meaning = ''1'', sense_lemma = dom\<rparr>,
        \<lparr>sense_name = dom, sense_synset_id = ''N2'', sense_meaning = ''2'', sense_lemma = dom\<rparr>] \<rparr>"

definition two_senses_index :: ruwordnet where
  "two_senses_index = projr (init str_lower two_senses_files)"

text \<open>A noun whose name is written in capitals in the file.\<close>

definition capitals_files :: data_files where
  "capitals_files = no_files \<lparr>
     senses_file_n :=
       [\<lparr>sense_name = ''DVD'', sense_synset_id = ''N1'', sense_meaning = ''1'',
          sense_lemma = ''DVD''\<rparr>] \<rparr>"

definition capitals_index :: ruwordnet where
  "capitals_index = projr (init str_lower capitals_files)"

text \<open>A word that is a noun and a verb, and a verb that is only a verb.\<close>

definition noun_verb_files :: data_files where
  "noun_verb_files = no_files \<lparr>
     senses_file_n :=
       [\<lparr>sense_name = ''Plan'', sense_synset_id = ''N1'', sense_meaning = ''1'',
          sense_lemma = ''Plan''\<rparr>],
     senses_file_v :=
       [\<lparr>sense_name = ''plan'', sense_synset_id = ''V1'', sense_meaning = ''1'',
          sense_lemma = ''plan''\<rparr>,
        \<lparr>sense_name = ''Go'', sense_synset_id = ''V2'', sense_meaning = ''1'',
          sense_lemma = ''Go''\<rparr>] \<rparr>"

definition noun_verb_index :: ruwordnet where
  "noun_verb_index = projr (init str_lower noun_verb_files)"

text \<open>
  A word and a synset id that both the noun file and the verb file hold, and a word and
  a synset id that both the verb file and the adjective file hold.
\<close>

definition overlap_files :: data_files where
  "overlap_files = no_files \<lparr>
     senses_file_n :=
       [\<lparr>sense_name = ''plan'', sense_synset_id = ''X1'', sense_meaning = ''1'',
          sense_lemma = ''plan''\<rparr>],
     senses_file_v :=
       [\<lparr>sense_name = ''plan'', sense_synset_id = ''X2'', sense_meaning = ''1'',
          sense_lemma = ''plan''\<rparr>,
        \<lparr>sense_name = ''go'', sense_synset_id = ''X1'', sense_meaning = ''1'',
          sense_lemma = ''go''\<rparr>],
     senses_file_a :=
       [\<lparr>sense_name = ''go'', sense_synset_id = ''X3'', sense_meaning = ''1'',
          sense_lemma = ''go''\<rparr>,
        \<lparr>sense_name = ''fast'', sense_synset_id = ''X2'', sense_meaning = ''1'',
          sense_lemma = ''fast''\<rparr>],
     synsets_n :=
       [\<lparr>syn_id = ''X1'', syn_ruthes_name = ''PLAN'', syn_definition = []\<rparr>] \<rparr>"

definition overlap_index :: ruwordnet where
  "overlap_index = projr (init str_lower overlap_files)"

text \<open>A relation to a synset that no sense file has.\<close>

definition dangling_files :: data_files where
  "dangling_files = no_files \<lparr>
     senses_file_n :=
       [\<lparr>sense_name = dom, sense_synset_id = ''N1'', sense_meaning = ''1'', sense_lemma = dom\<rparr>],
     synset_relations_N :=
       [\<lparr>parent_id = ''N1'', rel_name = ''hypernym'', child_id = ''N2''\<rparr>] \<rparr>"

definition dangling_index :: ruwordnet where
  "dangling_index = projr (init str_lower dangling_files)"

section \<open>Facts about the constructor\<close>

lemmas build_defs =
  init_def split_beta Let_def get_basic_relations_def create_word_synset_map_def
  extract_synset_definitions_def append_at_def has_key_def str_lower_def lower_char_def
  no_files_def

lemma append_at_apply:
  "append_at d k v k' = (if k' = k then Some (entries d k @ [v]) else d k')"
  by (auto simp: append_at_def has_key_def entries_def Let_def)

text \<open>
  What the loop of \<open>create_word_synset_map\<close> leaves under a word: the synset ids of the
  senses with that lower-cased name, in file order, after what was there.
\<close>

lemma word_synset_loop_fst:
  "fst (word_synset_loop lower senses (d1, d2)) w =
     (if filter (\<lambda>r. lower (sense_name r) = w) senses = [] then d1 w
      else Some (entries d1 w @
                 map sense_synset_id (filter (\<lambda>r. lower (sense_name r) = w) senses)))"
proof (induction senses arbitrary: d1 d2)
  case Nil
  then show ?case by simp
next
  case (Cons child rest)
  show ?case
    by (simp add: Cons.IH Let_def append_at_apply entries_def)
qed

lemma word_synset_loop_snd:
  "snd (word_synset_loop lower senses (d1, d2)) s =
     (if filter (\<lambda>r. sense_synset_id r = s) senses = [] then d2 s
      else Some (entries d2 s @
                 map (\<lambda>r. lower (sense_name r)) (filter (\<lambda>r. sense_synset_id r = s) senses)))"
proof (induction senses arbitrary: d1 d2)
  case Nil
  then show ?case by simp
next
  case (Cons child rest)
  show ?case
    by (simp add: Cons.IH Let_def append_at_apply entries_def)
qed

lemma create_fst:
  "fst (create_word_synset_map lower senses) w =
     (if filter (\<lambda>r. lower (sense_name r) = w) senses = [] then None
      else Some (map sense_synset_id (filter (\<lambda>r. lower (sense_name r) = w) senses)))"
  by (simp add: create_word_synset_map_def word_synset_loop_fst entries_def)

lemma create_snd:
  "snd (create_word_synset_map lower senses) s =
     (if filter (\<lambda>r. sense_synset_id r = s) senses = [] then None
      else Some (map (\<lambda>r. lower (sense_name r)) (filter (\<lambda>r. sense_synset_id r = s) senses)))"
  by (simp add: create_word_synset_map_def word_synset_loop_snd entries_def)

lemma init_word_synset:
  assumes "init lower files = Inr self"
  shows "word_synset self p = fst (create_word_synset_map lower (senses_file files p))"
  using assms by (cases p) (auto simp: init_def Let_def split: prod.splits sum.splits)

lemma init_synset_word:
  assumes "init lower files = Inr self"
  shows "synset_word self p = snd (create_word_synset_map lower (senses_file files p))"
  using assms by (cases p) (auto simp: init_def Let_def split: prod.splits sum.splits)

lemma word_synset_member:
  assumes "init lower files = Inr self" and "r \<in> set (senses_file files p)"
  shows "\<exists>synsets. word_synset self p (lower (sense_name r)) = Some synsets
           \<and> sense_synset_id r \<in> set synsets"
  using assms(2) by (auto simp: init_word_synset[OF assms(1)] create_fst filter_empty_conv)

lemma synset_word_member:
  assumes "init lower files = Inr self" and "r \<in> set (senses_file files p)"
  shows "\<exists>ws. synset_word self p (sense_synset_id r) = Some ws \<and> lower (sense_name r) \<in> set ws"
  using assms(2) by (auto simp: init_synset_word[OF assms(1)] create_snd filter_empty_conv)

lemma entries_inverse:
  assumes "init lower files = Inr self"
  shows "w \<in> set (entries (synset_word self p) s) \<longleftrightarrow> s \<in> set (entries (word_synset self p) w)"
proof -
  let ?senses = "senses_file files p"
  have a: "set (entries (synset_word self p) s) =
             (\<lambda>r. lower (sense_name r)) ` {r \<in> set ?senses. sense_synset_id r = s}"
    by (auto simp: init_synset_word[OF assms] create_snd entries_def filter_empty_conv)
  have b: "set (entries (word_synset self p) w) =
             sense_synset_id ` {r \<in> set ?senses. lower (sense_name r) = w}"
    by (auto simp: init_word_synset[OF assms] create_fst entries_def filter_empty_conv)
  show ?thesis unfolding a b by blast
qed

lemma word_synsets_first:
  assumes "word_synset self p w = Some synsets"
    and "\<forall>q\<in>set (earlier p). \<not> has_key (word_synset self q) w"
  shows "word_synsets self w = Some synsets"
  using assms by (cases p) (auto simp: word_synsets_def has_key_def)

lemma show_synset_words_first:
  assumes "synset_word self p s = Some ws"
    and "\<forall>q\<in>set (earlier p). \<not> has_key (synset_word self q) s"
  shows "show_synset_words self s = Stored p s"
  using assms by (cases p) (auto simp: show_synset_words_def has_key_def)

section \<open>The relations of a parent whose records are not contiguous\<close>

text \<open>
  C1. The claim: the relation dictionary groups the children by equality of
  \<open>parent_id\<close>, also when the records of one parent are not contiguous, so that after
  the records (P1, hyp, A), (P2, hol, B), (P1, hyp, C) the relations of P1 are
  hyp: [A, C] and those of P2 are hol: [B].
  The code compares each record with \<open>par_id_prev\<close> and gives a parent that comes back
  after another one a new, empty dictionary: on these three records the relations of P1
  are hyp: [C], the child A is lost. The relations of P2 are hol: [B].
\<close>

theorem interrupted_parent_overwritten:
  "init str_lower interrupted_files = Inr interrupted_index
   \<and> show_basic_synset_relations interrupted_index ''P1'' = [(''hyp'', [''C''])]
   \<and> show_basic_synset_relations interrupted_index ''P2'' = [(''hol'', [''B''])]"
  by (simp add: interrupted_index_def interrupted_files_def build_defs
      show_basic_synset_relations_def)

section \<open>The definition of a synset\<close>

text \<open>
  C2. The claim: \<open>show_synset_definitions\<close> tries the noun, the verb and the adjective
  definitions in this order, and returns the stored definition of a synset that only the
  verb or the adjective definitions have.
  The three tests of the code read the noun definitions: for the verb synset V1, which
  \<open>defin_V\<close> holds, the result is the empty dictionary.
\<close>

theorem verb_definition_not_found:
  "init str_lower verb_files = Inr verb_index
   \<and> defin_V verb_index ''V1'' = Some [(''ruthes_name'', ''IDTI''), (''definition'', [])]
   \<and> show_synset_definitions verb_index ''V1'' = []"
  by (simp add: verb_index_def verb_files_def build_defs show_synset_definitions_def)

section \<open>What a call of \<open>show_synonyms\<close> leaves behind\<close>

text \<open>
  C3. The claim: no query changes a dictionary; the words of a synset are the same
  before and after any number of calls of \<open>show_synonyms\<close>.
  The code removes the query word from the list that \<open>show_synset_words\<close> returned,
  which is the stored list: the synset N1 holds \<open>luk\<close> and \<open>oruzhie\<close> before the call
  of \<open>show_synonyms\<close> on \<open>luk\<close>, and \<open>oruzhie\<close> alone after it.
\<close>

theorem synonyms_change_stored_words:
  "init str_lower weapon_files = Inr weapon_index
   \<and> show_synset_words_list weapon_index ''N1'' = [luk, oruzhie]
   \<and> show_synset_words_list (snd (show_synonyms weapon_index luk)) ''N1'' = [oruzhie]"
  by (simp add: weapon_index_def weapon_files_def build_defs show_synset_definitions_def
      show_synset_words_list_def show_synset_words_def show_synonyms_def word_synsets_def
      luk_def oruzhie_def)

section \<open>Polysemous and monosemous words\<close>

text \<open>
  C5. The claim: no lemma is in both the polysemous and the monosemous words; for the
  two noun senses of \<open>dom\<close>, with the meanings 1 and 2, the polysemous words are
  \<open>dom\<close> and there is no monosemous word.
  The code puts a word among the monosemous ones as soon as one of its senses has the
  meaning 1: \<open>dom\<close> is in both lists.
\<close>

theorem two_senses_in_both_lists:
  "init str_lower two_senses_files = Inr two_senses_index
   \<and> extract_polysesmous_words str_lower two_senses_index ''Noun'' ''lemmas'' = ([], [dom])
   \<and> extract_monosesmous_words str_lower two_senses_index ''Noun'' ''lemmas'' = ([], [dom])"
  by (simp add: two_senses_index_def two_senses_files_def build_defs
      extract_polysesmous_words_def extract_monosesmous_words_def dom_def)

section \<open>The synonyms of a word whose synset has no noun definition\<close>

text \<open>
  C6. The claim: no query raises for a missing key; \<open>show_synonyms\<close> returns a result
  for a word one of whose synsets has no definition, or has its definition outside the
  noun definitions.
  The code reads \<open>ruthes_name\<close> in what \<open>show_synset_definitions\<close> returned, which is
  the empty dictionary in both cases: the call raises \<open>KeyError\<close> for the noun \<open>dom\<close>,
  whose synset has no synset record, and for the verb \<open>idti\<close>, whose synset has one in
  the verb file.
\<close>

theorem synonyms_key_error:
  "init str_lower undefined_files = Inr undefined_index
   \<and> extract_word_synset_number undefined_index dom False = Synsets [''N1'']
   \<and> fst (show_synonyms undefined_index dom) = Inl (KeyError ''ruthes_name'')
   \<and> init str_lower verb_files = Inr verb_index
   \<and> extract_word_synset_number verb_index idti False = Synsets [''V1'']
   \<and> fst (show_synonyms verb_index idti) = Inl (KeyError ''ruthes_name'')"
  by (simp add: undefined_index_def undefined_files_def verb_index_def verb_files_def build_defs
      show_synset_definitions_def extract_word_synset_number_def
      show_synset_words_list_def show_synset_words_def show_synonyms_def word_synsets_def
      dom_def idti_def)

section \<open>The synonyms of a word that its synset lists twice\<close>

text \<open>
  C8. The claim: the entry of \<open>show_synonyms\<close> for a synset is the word list of the
  synset without the first occurrence of the query word, and only the first: for the
  stored list \<open>luk\<close>, \<open>luk\<close>, \<open>oruzhie\<close> and the query \<open>luk\<close> the synonyms are \<open>luk\<close>,
  \<open>oruzhie\<close>.
  The constructor stores this list when two senses give \<open>luk\<close> to the synset N1, and it
  then lists N1 twice for \<open>luk\<close>. The call visits N1 twice, removes one \<open>luk\<close> from
  the stored list each time and puts the stored list itself into both entries: each
  entry reads \<open>oruzhie\<close> alone.
\<close>

theorem repeated_word_removed_twice:
  "init str_lower repeated_files = Inr repeated_index
   \<and> show_synset_words_list repeated_index ''N1'' = [luk, luk, oruzhie]
   \<and> extract_word_synset_number repeated_index luk False = Synsets [''N1'', ''N1'']
   \<and> fst (show_synonyms repeated_index luk) =
       Inr (Entries [\<lparr>synset_id = ''N1'', synonyms = Stored PosN ''N1'', ruthes_name = ''LUK''\<rparr>,
                     \<lparr>synset_id = ''N1'', synonyms = Stored PosN ''N1'', ruthes_name = ''LUK''\<rparr>])
   \<and> contents (snd (show_synonyms repeated_index luk)) (Stored PosN ''N1'') = [oruzhie]"
  by (simp add: repeated_index_def repeated_files_def build_defs show_synset_definitions_def
      show_synset_words_list_def show_synset_words_def show_synonyms_def word_synsets_def
      extract_word_synset_number_def luk_def oruzhie_def)

section \<open>The case of the query word\<close>

text \<open>
  C4. The claim: \<open>extract_word_synset_number\<close> is case-insensitive, it answers a word
  as it answers the lower-cased word, and a word of the files is found when the query has
  capital letters.
  The code lower-cases the names when it builds the dictionaries and looks the query up
  as it is given: the noun that the file names DVD is found under \<open>dvd\<close> and not
  under \<open>DVD\<close>.
\<close>

theorem capitals_query_not_found:
  "init str_lower capitals_files = Inr capitals_index
   \<and> extract_word_synset_number capitals_index ''DVD'' False =
       Synsets [''No such word in RuWordNet'']
   \<and> extract_word_synset_number capitals_index (str_lower ''DVD'') False = Synsets [''N1'']"
  by (simp add: capitals_index_def capitals_files_def build_defs
      extract_word_synset_number_def word_synsets_def)

text \<open>
  The first of the three word dictionaries that has a word answers for it, a word that
  none of them has is not found, and the keys of the word dictionary of a part of speech
  are the lower-cased names of its sense file.
\<close>

lemma word_synsets_Some:
  assumes "word_synsets self w = Some synsets"
  shows "\<exists>q. word_synset self q w = Some synsets
              \<and> (\<forall>q'\<in>set (earlier q). \<not> has_key (word_synset self q') w)"
proof (cases "has_key (word_synset_N self) w")
  case True
  then have "word_synset self PosN w = Some synsets"
    using assms by (auto simp: word_synsets_def has_key_def)
  then show ?thesis by (intro exI[of _ PosN]) simp
next
  case noN: False
  show ?thesis
  proof (cases "has_key (word_synset_V self) w")
    case True
    then have "word_synset self PosV w = Some synsets"
      using assms noN by (auto simp: word_synsets_def has_key_def)
    then show ?thesis using noN by (intro exI[of _ PosV]) simp
  next
    case noV: False
    then have "word_synset self PosA w = Some synsets"
      using assms noN by (auto simp: word_synsets_def has_key_def split: if_splits)
    then show ?thesis using noN noV by (intro exI[of _ PosA]) simp
  qed
qed

lemma word_synsets_None:
  assumes "\<forall>q. \<not> has_key (word_synset self q) w"
  shows "word_synsets self w = None"
  using assms[rule_format, of PosN] assms[rule_format, of PosV] assms[rule_format, of PosA]
  by (simp add: word_synsets_def)

lemma key_is_lower_name:
  assumes "init lower files = Inr self" and "has_key (word_synset self q) w"
  shows "\<exists>r\<in>set (senses_file files q). lower (sense_name r) = w"
  using assms(2)
  by (auto simp: has_key_def init_word_synset[OF assms(1)] create_fst filter_empty_conv
      split: if_splits)

text \<open>
  C4, as amended: the query is looked up as it is given, and only the names of the sense
  files are lower-cased. Every word of the sense files is found when the query is its
  lower-cased name: the answer is then the list, which is not empty, that the first of
  the noun, verb and adjective dictionaries that has this key stores for it. A query
  that is not the lower-cased name of a sense of any file is not found, whatever its own
  lower-cased form is.
\<close>

theorem found_by_lower_name:
  assumes "init lower files = Inr self"
  shows "(r \<in> set (senses_file files p) \<longrightarrow>
            (\<exists>q synsets. word_synset self q (lower (sense_name r)) = Some synsets
               \<and> synsets \<noteq> []
               \<and> (\<forall>q'\<in>set (earlier q). \<not> has_key (word_synset self q') (lower (sense_name r)))
               \<and> extract_word_synset_number self (lower (sense_name r)) False
                   = Synsets synsets))
       \<and> ((\<forall>q. \<forall>r'\<in>set (senses_file files q). lower (sense_name r') \<noteq> word) \<longrightarrow>
            extract_word_synset_number self word False
              = Synsets [''No such word in RuWordNet''])"
proof (intro conjI impI)
  assume r: "r \<in> set (senses_file files p)"
  let ?w = "lower (sense_name r)"
  have nonempty: "synsets \<noteq> []" if "word_synset self q ?w = Some synsets" for q synsets
    using that by (auto simp: init_word_synset[OF assms] create_fst split: if_splits)
  obtain xs where xs: "word_synset self p ?w = Some xs"
    using word_synset_member[OF assms r] by blast
  have "word_synsets self ?w \<noteq> None"
  proof
    assume none: "word_synsets self ?w = None"
    then have "\<not> has_key (word_synset self p) ?w"
      by (cases p) (auto simp: word_synsets_def split: if_splits)
    then show False using xs by (simp add: has_key_def)
  qed
  then obtain synsets where s: "word_synsets self ?w = Some synsets" by blast
  obtain q where q: "word_synset self q ?w = Some synsets"
      "\<forall>q'\<in>set (earlier q). \<not> has_key (word_synset self q') ?w"
    using word_synsets_Some[OF s] by blast
  have "extract_word_synset_number self ?w False = Synsets synsets"
    using s by (simp add: extract_word_synset_number_def)
  then show "\<exists>q synsets. word_synset self q ?w = Some synsets \<and> synsets \<noteq> []
               \<and> (\<forall>q'\<in>set (earlier q). \<not> has_key (word_synset self q') ?w)
               \<and> extract_word_synset_number self ?w False = Synsets synsets"
    using q nonempty[OF q(1)] by blast
next
  assume no: "\<forall>q. \<forall>r'\<in>set (senses_file files q). lower (sense_name r') \<noteq> word"
  have "\<forall>q. \<not> has_key (word_synset self q) word"
    using key_is_lower_name[OF assms] no by blast
  then have "word_synsets self word = None" by (rule word_synsets_None)
  then show "extract_word_synset_number self word False = Synsets [''No such word in RuWordNet'']"
    by (simp add: extract_word_synset_number_def)
qed

theorem found_by_lower_name_witness:
  "init str_lower capitals_files = Inr capitals_index
   \<and> \<lparr>sense_name = ''DVD'', sense_synset_id = ''N1'', sense_meaning = ''1'',
        sense_lemma = ''DVD''\<rparr> \<in> set (senses_file capitals_files PosN)
   \<and> str_lower ''DVD'' = ''dvd''
   \<and> word_synset capitals_index PosN ''dvd'' = Some [''N1'']
   \<and> extract_word_synset_number capitals_index ''dvd'' False = Synsets [''N1'']
   \<and> extract_word_synset_number capitals_index ''DVD'' False =
       Synsets [''No such word in RuWordNet'']"
proof -
  let ?r = "\<lparr>sense_name = ''DVD'', sense_synset_id = ''N1'', sense_meaning = ''1'',
              sense_lemma = ''DVD''\<rparr>"
  have i: "init str_lower capitals_files = Inr capitals_index"
    by (simp add: capitals_index_def capitals_files_def build_defs)
  have r: "?r \<in> set (senses_file capitals_files PosN)"
    by (simp add: capitals_files_def no_files_def)
  have l: "str_lower ''DVD'' = ''dvd''"
    by (simp add: str_lower_def lower_char_def)
  have no: "\<forall>q. \<forall>r'\<in>set (senses_file capitals_files q). str_lower (sense_name r') \<noteq> ''DVD''"
  proof
    fix q
    show "\<forall>r'\<in>set (senses_file capitals_files q). str_lower (sense_name r') \<noteq> ''DVD''"
      by (cases q) (simp_all add: capitals_files_def no_files_def str_lower_def lower_char_def)
  qed
  have n: "word_synset capitals_index PosN ''dvd'' = Some [''N1'']"
    by (simp add: capitals_index_def capitals_files_def build_defs)
  note t = found_by_lower_name [OF i, of ?r PosN "''DVD''"]
  obtain q synsets where q: "word_synset capitals_index q (str_lower (sense_name ?r)) = Some synsets"
      "\<forall>q'\<in>set (earlier q). \<not> has_key (word_synset capitals_index q') (str_lower (sense_name ?r))"
      "extract_word_synset_number capitals_index (str_lower (sense_name ?r)) False = Synsets synsets"
    using t r by blast
  have "q = PosN"
    using q(1) by (cases q) (simp_all add: capitals_index_def capitals_files_def build_defs)
  then have found: "extract_word_synset_number capitals_index ''dvd'' False = Synsets [''N1'']"
    using q(1,3) n l by simp
  have missing: "extract_word_synset_number capitals_index ''DVD'' False =
      Synsets [''No such word in RuWordNet'']"
    using t no by blast
  show ?thesis using i r l n found missing by blast
qed

section \<open>The order of the parts of speech\<close>

text \<open>
  C7. The order of the parts of speech is noun, verb, adjective, and the first that has
  the key answers. A word that both the noun and the verb dictionary hold is answered
  from the noun dictionary, with and without \<open>full_info\<close>, and a synset id that both
  hold gets the word list of the noun dictionary: \<open>show_synset_words\<close> returns that
  stored list. In general a word that the dictionary of a part of speech holds, and
  that of no earlier part of speech, is answered from this dictionary, whatever the later
  ones hold, and so is a synset id.
\<close>

theorem noun_first:
  "(word_synset_N self w = Some xs \<and> word_synset_V self w = Some ys \<longrightarrow>
      extract_word_synset_number self w False = Synsets xs
      \<and> extract_word_synset_number self w True =
          Info (map (\<lambda>syn. (syn, show_synset_definitions self syn)) xs))
   \<and> (synset_word_N self s = Some ws \<and> synset_word_V self s = Some vs \<longrightarrow>
        show_synset_words self s = Stored PosN s \<and> show_synset_words_list self s = ws)
   \<and> (word_synset self p w' = Some xs'
        \<and> (\<forall>q\<in>set (earlier p). \<not> has_key (word_synset self q) w') \<longrightarrow>
        extract_word_synset_number self w' False = Synsets xs'
        \<and> extract_word_synset_number self w' True =
            Info (map (\<lambda>syn. (syn, show_synset_definitions self syn)) xs'))
   \<and> (synset_word self p' s' = Some ws'
        \<and> (\<forall>q\<in>set (earlier p'). \<not> has_key (synset_word self q) s') \<longrightarrow>
        show_synset_words self s' = Stored p' s' \<and> show_synset_words_list self s' = ws')"
proof (intro conjI impI)
  assume "word_synset_N self w = Some xs \<and> word_synset_V self w = Some ys"
  then have "word_synsets self w = Some xs"
    by (simp add: word_synsets_def has_key_def)
  then show "extract_word_synset_number self w False = Synsets xs"
    and "extract_word_synset_number self w True =
          Info (map (\<lambda>syn. (syn, show_synset_definitions self syn)) xs)"
    by (simp_all add: extract_word_synset_number_def)
next
  assume a: "synset_word_N self s = Some ws \<and> synset_word_V self s = Some vs"
  then show "show_synset_words self s = Stored PosN s"
    by (simp add: show_synset_words_def has_key_def)
  with a show "show_synset_words_list self s = ws"
    by (simp add: show_synset_words_list_def)
next
  assume "word_synset self p w' = Some xs'
        \<and> (\<forall>q\<in>set (earlier p). \<not> has_key (word_synset self q) w')"
  then have "word_synsets self w' = Some xs'"
    using word_synsets_first[of self p w' xs'] by blast
  then show "extract_word_synset_number self w' False = Synsets xs'"
    and "extract_word_synset_number self w' True =
          Info (map (\<lambda>syn. (syn, show_synset_definitions self syn)) xs')"
    by (simp_all add: extract_word_synset_number_def)
next
  assume a: "synset_word self p' s' = Some ws'
        \<and> (\<forall>q\<in>set (earlier p'). \<not> has_key (synset_word self q) s')"
  then show b: "show_synset_words self s' = Stored p' s'"
    using show_synset_words_first[of self p' s' ws'] by blast
  show "show_synset_words_list self s' = ws'"
    using a b by (simp add: show_synset_words_list_def)
qed

theorem noun_first_witness:
  "word_synset_N overlap_index ''plan'' = Some [''X1'']
   \<and> word_synset_V overlap_index ''plan'' = Some [''X2'']
   \<and> extract_word_synset_number overlap_index ''plan'' False = Synsets [''X1'']
   \<and> extract_word_synset_number overlap_index ''plan'' True =
       Info [(''X1'', [(''ruthes_name'', ''PLAN''), (''definition'', [])])]
   \<and> synset_word_N overlap_index ''X1'' = Some [''plan'']
   \<and> synset_word_V overlap_index ''X1'' = Some [''go'']
   \<and> show_synset_words overlap_index ''X1'' = Stored PosN ''X1''
   \<and> show_synset_words_list overlap_index ''X1'' = [''plan'']
   \<and> \<not> has_key (word_synset_N overlap_index) ''go''
   \<and> word_synset_V overlap_index ''go'' = Some [''X1'']
   \<and> word_synset_A overlap_index ''go'' = Some [''X3'']
   \<and> extract_word_synset_number overlap_index ''go'' False = Synsets [''X1'']
   \<and> \<not> has_key (synset_word_N overlap_index) ''X2''
   \<and> synset_word_V overlap_index ''X2'' = Some [''plan'']
   \<and> synset_word_A overlap_index ''X2'' = Some [''fast'']
   \<and> show_synset_words overlap_index ''X2'' = Stored PosV ''X2''
   \<and> show_synset_words_list overlap_index ''X2'' = [''plan'']"
proof -
  note defs = overlap_index_def overlap_files_def build_defs
  have n: "word_synset_N overlap_index ''plan'' = Some [''X1'']" by (simp add: defs)
  have v: "word_synset_V overlap_index ''plan'' = Some [''X2'']" by (simp add: defs)
  have sn: "synset_word_N overlap_index ''X1'' = Some [''plan'']" by (simp add: defs)
  have sv: "synset_word_V overlap_index ''X1'' = Some [''go'']" by (simp add: defs)
  have gn: "\<not> has_key (word_synset_N overlap_index) ''go''" by (simp add: defs)
  have gv: "word_synset_V overlap_index ''go'' = Some [''X1'']" by (simp add: defs)
  have ga: "word_synset_A overlap_index ''go'' = Some [''X3'']" by (simp add: defs)
  have xn: "\<not> has_key (synset_word_N overlap_index) ''X2''" by (simp add: defs)
  have xv: "synset_word_V overlap_index ''X2'' = Some [''plan'']" by (simp add: defs)
  have xa: "synset_word_A overlap_index ''X2'' = Some [''fast'']" by (simp add: defs)
  have d: "show_synset_definitions overlap_index ''X1'' =
      [(''ruthes_name'', ''PLAN''), (''definition'', [])]"
    by (simp add: defs show_synset_definitions_def)
  have e1: "\<forall>q\<in>set (earlier PosV). \<not> has_key (word_synset overlap_index q) ''go''"
    using gn by simp
  have e2: "\<forall>q\<in>set (earlier PosV). \<not> has_key (synset_word overlap_index q) ''X2''"
    using xn by simp
  note t = noun_first [of overlap_index "''plan''" "[''X1'']" "[''X2'']" "''X1''" "[''plan'']"
      "[''go'']" PosV "''go''" "[''X1'']" PosV "''X2''" "[''plan'']"]
  have r1: "extract_word_synset_number overlap_index ''plan'' False = Synsets [''X1'']"
    and r2: "extract_word_synset_number overlap_index ''plan'' True =
       Info [(''X1'', [(''ruthes_name'', ''PLAN''), (''definition'', [])])]"
    using t n v d by simp_all
  have r3: "show_synset_words overlap_index ''X1'' = Stored PosN ''X1''"
    and r4: "show_synset_words_list overlap_index ''X1'' = [''plan'']"
    using t sn sv by simp_all
  have r5: "extract_word_synset_number overlap_index ''go'' False = Synsets [''X1'']"
    using t gv e1 by simp
  have r6: "show_synset_words overlap_index ''X2'' = Stored PosV ''X2''"
    and r7: "show_synset_words_list overlap_index ''X2'' = [''plan'']"
    using t xv e2 by simp_all
  show ?thesis
    using n v r1 r2 sn sv r3 r4 gn gv ga r5 xn xv xa r6 r7 by blast
qed

section \<open>The two dictionaries of a part of speech are inverse to each other\<close>

text \<open>
  C9. The claim: for every sense (name, synset id) of the files, the synset id is in the
  answer of \<open>extract_word_synset_number\<close> for the name and the lower-cased name is in
  the answer of \<open>show_synset_words\<close> for the synset id.
  The code looks the name up as it is given, and answers from the first part of speech
  that has the key: the noun that the file names Plan is not found under that name, and
  the verb synset V1 of \<open>plan\<close> is not in the answer for \<open>plan\<close>, which is the noun
  list.
\<close>

theorem sense_not_resolved:
  "init str_lower noun_verb_files = Inr noun_verb_index
   \<and> extract_word_synset_number noun_verb_index ''Plan'' False =
       Synsets [''No such word in RuWordNet'']
   \<and> ''N1'' \<notin> set [''No such word in RuWordNet'']
   \<and> extract_word_synset_number noun_verb_index ''plan'' False = Synsets [''N1'']
   \<and> ''V1'' \<notin> set [''N1'']"
  by (simp add: noun_verb_index_def noun_verb_files_def build_defs
      extract_word_synset_number_def word_synsets_def)

text \<open>
  C9, as amended: for every sense (name, synset id) of the file of a part of speech, the
  synset id is in the list that the word dictionary of this part of speech stores for the
  lower-cased name, and the lower-cased name is in the list that its synset dictionary
  stores for the synset id. The synset id is in the answer of
  \<open>extract_word_synset_number\<close> for the lower-cased name when no earlier part of speech
  has this word, and the lower-cased name is in the answer of \<open>show_synset_words\<close> for
  the synset id when no earlier part of speech has this synset id. In each part of
  speech, a word is in the list of a synset exactly when the synset is in the list of the
  word. All this holds for the object as the constructor returns it.
\<close>

theorem inverse_index:
  assumes "init lower files = Inr self" and "r \<in> set (senses_file files p)"
  shows "(\<exists>synsets. word_synset self p (lower (sense_name r)) = Some synsets
            \<and> sense_synset_id r \<in> set synsets)
       \<and> (\<exists>ws. synset_word self p (sense_synset_id r) = Some ws \<and> lower (sense_name r) \<in> set ws)
       \<and> ((\<forall>q\<in>set (earlier p). \<not> has_key (word_synset self q) (lower (sense_name r))) \<longrightarrow>
            (\<exists>synsets. extract_word_synset_number self (lower (sense_name r)) False
                         = Synsets synsets
               \<and> sense_synset_id r \<in> set synsets))
       \<and> ((\<forall>q\<in>set (earlier p). \<not> has_key (synset_word self q) (sense_synset_id r)) \<longrightarrow>
            lower (sense_name r) \<in> set (show_synset_words_list self (sense_synset_id r)))
       \<and> (\<forall>w s. w \<in> set (entries (synset_word self p) s)
                 \<longleftrightarrow> s \<in> set (entries (word_synset self p) w))"
proof -
  obtain synsets where a: "word_synset self p (lower (sense_name r)) = Some synsets"
      "sense_synset_id r \<in> set synsets"
    using word_synset_member[OF assms] by blast
  obtain ws where b: "synset_word self p (sense_synset_id r) = Some ws"
      "lower (sense_name r) \<in> set ws"
    using synset_word_member[OF assms] by blast
  have c: "extract_word_synset_number self (lower (sense_name r)) False = Synsets synsets"
    if "\<forall>q\<in>set (earlier p). \<not> has_key (word_synset self q) (lower (sense_name r))"
    using word_synsets_first[OF a(1) that] by (simp add: extract_word_synset_number_def)
  have d: "show_synset_words_list self (sense_synset_id r) = ws"
    if "\<forall>q\<in>set (earlier p). \<not> has_key (synset_word self q) (sense_synset_id r)"
    using show_synset_words_first[OF b(1) that] b(1) by (simp add: show_synset_words_list_def)
  show ?thesis using a b c d entries_inverse[OF assms(1)] by blast
qed

theorem inverse_index_witness:
  "init str_lower noun_verb_files = Inr noun_verb_index
   \<and> \<lparr>sense_name = ''Go'', sense_synset_id = ''V2'', sense_meaning = ''1'',
        sense_lemma = ''Go''\<rparr> \<in> set (senses_file noun_verb_files PosV)
   \<and> \<not> has_key (word_synset noun_verb_index PosN) ''go''
   \<and> \<not> has_key (synset_word noun_verb_index PosN) ''V2''
   \<and> word_synset noun_verb_index PosV ''go'' = Some [''V2'']
   \<and> synset_word noun_verb_index PosV ''V2'' = Some [''go'']
   \<and> extract_word_synset_number noun_verb_index ''go'' False = Synsets [''V2'']
   \<and> show_synset_words_list noun_verb_index ''V2'' = [''go'']"
  using inverse_index [of str_lower noun_verb_files noun_verb_index
      "\<lparr>sense_name = ''Go'', sense_synset_id = ''V2'', sense_meaning = ''1'',
         sense_lemma = ''Go''\<rparr>" PosV]
  by (simp add: noun_verb_index_def noun_verb_files_def build_defs
      extract_word_synset_number_def word_synsets_def
      show_synset_words_list_def show_synset_words_def)

section \<open>Relations to a synset that the thesaurus does not have\<close>

text \<open>
  A word that is in the list of a relation stays there in every later step of
  \<open>show_synset_relations_with_words\<close>, and the step of a synset puts its words into the
  list of the relation.
\<close>

lemma relation_step_keeps:
  "has_word d relation x \<Longrightarrow> has_word (relation_step self False r syn d) relation x"
  by (auto simp: has_word_def relation_step_def Let_def AList.update_conv' words_of_def)

lemma relation_step_adds:
  "x \<in> set (show_synset_words_list self syn) \<Longrightarrow>
   has_word (relation_step self False relation syn d) relation x"
  by (auto simp: has_word_def relation_step_def Let_def AList.update_conv')

lemma synsets_loop_keeps:
  "has_word d relation x \<Longrightarrow> has_word (synsets_loop self False r synsets d) relation x"
  by (induction synsets arbitrary: d) (auto intro: relation_step_keeps)

lemma synsets_loop_adds:
  "syn \<in> set synsets \<Longrightarrow> x \<in> set (show_synset_words_list self syn) \<Longrightarrow>
   has_word (synsets_loop self False relation synsets d) relation x"
proof (induction synsets arbitrary: d)
  case Nil
  then show ?case by simp
next
  case (Cons a synsets)
  show ?case
  proof (cases "syn = a")
    case True
    then show ?thesis
      using Cons.prems(2) by (simp add: synsets_loop_keeps relation_step_adds)
  next
    case False
    then show ?thesis using Cons by simp
  qed
qed

lemma items_loop_keeps:
  "has_word d relation x \<Longrightarrow> has_word (items_loop self False items d) relation x"
proof (induction items arbitrary: d)
  case Nil
  then show ?case by simp
next
  case (Cons item items)
  obtain r ss where item: "item = (r, ss)" by (cases item)
  show ?case
    unfolding item items_loop.simps
    by (rule Cons.IH) (rule synsets_loop_keeps, rule Cons.prems)
qed

lemma items_loop_adds:
  "(relation, synsets) \<in> set items \<Longrightarrow> syn \<in> set synsets \<Longrightarrow>
   x \<in> set (show_synset_words_list self syn) \<Longrightarrow>
   has_word (items_loop self False items d) relation x"
proof (induction items arbitrary: d)
  case Nil
  then show ?case by simp
next
  case (Cons item items)
  obtain r ss where item: "item = (r, ss)" by (cases item)
  show ?case
  proof (cases "item = (relation, synsets)")
    case True
    then show ?thesis
      using Cons.prems by (simp add: items_loop_keeps synsets_loop_adds)
  next
    case False
    then have "(relation, synsets) \<in> set items" using Cons.prems(1) by simp
    then show ?thesis
      unfolding item items_loop.simps using Cons.prems(2,3) by (rule Cons.IH)
  qed
qed

text \<open>The same with \<open>print_synsets\<close>, for the list of a synset under a relation.\<close>

lemma nested_step_keeps:
  "has_word_under d relation t x \<Longrightarrow>
   has_word_under (relation_step self True r syn d) relation t x"
  by (auto simp: has_word_under_def relation_step_def Let_def AList.update_conv' by_synset_of_def)

lemma nested_step_adds:
  "x \<in> set (show_synset_words_list self syn) \<Longrightarrow>
   has_word_under (relation_step self True relation syn d) relation syn x"
  by (auto simp: has_word_under_def relation_step_def Let_def AList.update_conv')

lemma nested_synsets_loop_keeps:
  "has_word_under d relation t x \<Longrightarrow>
   has_word_under (synsets_loop self True r synsets d) relation t x"
  by (induction synsets arbitrary: d) (auto intro: nested_step_keeps)

lemma nested_synsets_loop_adds:
  "syn \<in> set synsets \<Longrightarrow> x \<in> set (show_synset_words_list self syn) \<Longrightarrow>
   has_word_under (synsets_loop self True relation synsets d) relation syn x"
proof (induction synsets arbitrary: d)
  case Nil
  then show ?case by simp
next
  case (Cons a synsets)
  show ?case
  proof (cases "syn = a")
    case True
    then show ?thesis
      using Cons.prems(2) by (simp add: nested_synsets_loop_keeps nested_step_adds)
  next
    case False
    then show ?thesis using Cons by simp
  qed
qed

lemma nested_items_loop_keeps:
  "has_word_under d relation t x \<Longrightarrow>
   has_word_under (items_loop self True items d) relation t x"
proof (induction items arbitrary: d)
  case Nil
  then show ?case by simp
next
  case (Cons item items)
  obtain r ss where item: "item = (r, ss)" by (cases item)
  show ?case
    unfolding item items_loop.simps
    by (rule Cons.IH) (rule nested_synsets_loop_keeps, rule Cons.prems)
qed

lemma nested_items_loop_adds:
  "(relation, synsets) \<in> set items \<Longrightarrow> syn \<in> set synsets \<Longrightarrow>
   x \<in> set (show_synset_words_list self syn) \<Longrightarrow>
   has_word_under (items_loop self True items d) relation syn x"
proof (induction items arbitrary: d)
  case Nil
  then show ?case by simp
next
  case (Cons item items)
  obtain r ss where item: "item = (r, ss)" by (cases item)
  show ?case
  proof (cases "item = (relation, synsets)")
    case True
    then show ?thesis
      using Cons.prems by (simp add: nested_items_loop_keeps nested_synsets_loop_adds)
  next
    case False
    then have "(relation, synsets) \<in> set items" using Cons.prems(1) by simp
    then show ?thesis
      unfolding item items_loop.simps using Cons.prems(2,3) by (rule Cons.IH)
  qed
qed

text \<open>The choice of relations keeps the value of a relation that is asked for.\<close>

lemma final_dict_loop_keeps:
  "map_of final_dict relation = Some v \<Longrightarrow> map_of d relation = Some v \<Longrightarrow>
   map_of (final_dict_loop rs d final_dict) relation = Some v"
proof (induction rs arbitrary: final_dict)
  case Nil
  then show ?case by simp
next
  case (Cons r rs)
  have "map_of (case map_of d r of Some v \<Rightarrow> AList.update r v final_dict | None \<Rightarrow> final_dict)
          relation = Some v"
    using Cons.prems by (auto simp: AList.update_conv' split: option.splits)
  then show ?case
    unfolding final_dict_loop.simps using Cons.prems(2) by (rule Cons.IH)
qed

lemma final_dict_loop_adds:
  "relation \<in> set rs \<Longrightarrow> map_of d relation = Some v \<Longrightarrow>
   map_of (final_dict_loop rs d final_dict) relation = Some v"
proof (induction rs arbitrary: final_dict)
  case Nil
  then show ?case by simp
next
  case (Cons r rs)
  show ?case
  proof (cases "r = relation")
    case True
    then show ?thesis
      using Cons.prems(2) by (simp add: final_dict_loop_keeps AList.update_conv')
  next
    case False
    then show ?thesis using Cons by simp
  qed
qed

lemma unknown_synset_words:
  "\<not> has_key (synset_word_N self) syn \<Longrightarrow> \<not> has_key (synset_word_V self) syn \<Longrightarrow>
   \<not> has_key (synset_word_A self) syn \<Longrightarrow>
   show_synset_words_list self syn = [''No such synset in the thesaurus'']"
  by (simp add: show_synset_words_list_def show_synset_words_def)

text \<open>
  C10. When a synset has a relation to a synset id that none of the three synset
  dictionaries has, the result of \<open>show_synset_relations_with_words\<close> has the string
  \<open>'No such synset in the thesaurus'\<close> among the words of this relation: with all
  relations, and with a choice of relations that names this one. With \<open>print_synsets\<close>
  the string is among the words of the unknown synset under this relation.
\<close>

theorem unknown_target_sentinel:
  assumes "basic_relations self synset_number = Some relatives_dict"
    and "map_of relatives_dict relation = Some synsets"
    and "syn \<in> set synsets"
    and "\<not> has_key (synset_word_N self) syn"
    and "\<not> has_key (synset_word_V self) syn"
    and "\<not> has_key (synset_word_A self) syn"
  shows "has_word (show_synset_relations_with_words self synset_number False All)
           relation ''No such synset in the thesaurus''
       \<and> (relation \<in> set rs \<longrightarrow>
            has_word (show_synset_relations_with_words self synset_number False (Only rs))
              relation ''No such synset in the thesaurus'')
       \<and> has_word_under (show_synset_relations_with_words self synset_number True All)
           relation syn ''No such synset in the thesaurus''"
proof -
  let ?x = "''No such synset in the thesaurus''"
  have rd: "show_basic_synset_relations self synset_number = relatives_dict"
    using assms(1) by (simp add: show_basic_synset_relations_def has_key_def)
  have mem: "(relation, synsets) \<in> set relatives_dict"
    using assms(2) by (rule map_of_SomeD)
  then have ne: "relatives_dict \<noteq> []" by auto
  have x: "?x \<in> set (show_synset_words_list self syn)"
    using unknown_synset_words[OF assms(4-6)] by simp
  have flat: "has_word (items_loop self False relatives_dict []) relation ?x"
    using mem assms(3) x by (rule items_loop_adds)
  then obtain ws where ws: "map_of (items_loop self False relatives_dict []) relation = Some (Words ws)"
      "?x \<in> set ws"
    unfolding has_word_def by blast
  have only: "has_word (final_dict_loop rs (items_loop self False relatives_dict []) []) relation ?x"
    if "relation \<in> set rs"
    unfolding has_word_def using final_dict_loop_adds[OF that ws(1)] ws(2) by blast
  have nested: "has_word_under (items_loop self True relatives_dict []) relation syn ?x"
    using mem assms(3) x by (rule nested_items_loop_adds)
  show ?thesis
    using flat only nested ne
    by (simp add: show_synset_relations_with_words_def rd Let_def)
qed

theorem unknown_target_sentinel_witness:
  "basic_relations dangling_index ''N1'' = Some [(''hypernym'', [''N2''])]
   \<and> \<not> has_key (synset_word_N dangling_index) ''N2''
   \<and> \<not> has_key (synset_word_V dangling_index) ''N2''
   \<and> \<not> has_key (synset_word_A dangling_index) ''N2''
   \<and> show_synset_relations_with_words dangling_index ''N1'' False All =
       [(''hypernym'', Words [''No such synset in the thesaurus''])]
   \<and> has_word (show_synset_relations_with_words dangling_index ''N1'' False All)
       ''hypernym'' ''No such synset in the thesaurus''
   \<and> has_word (show_synset_relations_with_words dangling_index ''N1'' False (Only [''hypernym'']))
       ''hypernym'' ''No such synset in the thesaurus''
   \<and> has_word_under (show_synset_relations_with_words dangling_index ''N1'' True All)
       ''hypernym'' ''N2'' ''No such synset in the thesaurus''"
proof -
  have a: "basic_relations dangling_index ''N1'' = Some [(''hypernym'', [''N2''])]"
    by (simp add: dangling_index_def dangling_files_def build_defs)
  have b: "map_of [(''hypernym'', [''N2''])] ''hypernym'' = Some [''N2'']" by simp
  have c: "''N2'' \<in> set [''N2'']" by simp
  have n: "\<not> has_key (synset_word_N dangling_index) ''N2''"
    by (simp add: dangling_index_def dangling_files_def build_defs dom_def)
  have v: "\<not> has_key (synset_word_V dangling_index) ''N2''"
    by (simp add: dangling_index_def dangling_files_def build_defs)
  have adj: "\<not> has_key (synset_word_A dangling_index) ''N2''"
    by (simp add: dangling_index_def dangling_files_def build_defs)
  have flat: "show_synset_relations_with_words dangling_index ''N1'' False All =
       [(''hypernym'', Words [''No such synset in the thesaurus''])]"
    using a n v adj
    by (simp add: show_synset_relations_with_words_def show_basic_synset_relations_def
        relation_step_def show_synset_words_list_def show_synset_words_def words_of_def
        has_key_def)
  show ?thesis
    using unknown_target_sentinel [OF a b c n v adj, of "[''hypernym'']"] a n v adj flat
    by simp
qed

end
